theory Spec2Isabelle
  imports Main
begin

section \<open>Strings of the host language\<close>

text \<open>
  A string is a list of code units; the embedding covers code units below 256, so
  \<^typ>\<open>char\<close> stands for one code unit.  The helpers below are the string methods
  that \<^verbatim>\<open>src/index.js\<close> calls: \<^verbatim>\<open>trim\<close>, \<^verbatim>\<open>startsWith\<close>, \<^verbatim>\<open>endsWith\<close>,
  \<^verbatim>\<open>includes\<close>, \<^verbatim>\<open>slice\<close>, \<^verbatim>\<open>split(':', 1)[0]\<close> and \<^verbatim>\<open>replace\<close> with a string
  pattern.
\<close>

definition is_space :: "char \<Rightarrow> bool" where
  "is_space c = (c = CHR 0x09 \<or> c = CHR 0x0A \<or> c = CHR 0x0B \<or> c = CHR 0x0C \<or> c = CHR 0x0D
     \<or> c = CHR 0x20 \<or> c = CHR 0xA0)"

definition is_dot :: "char \<Rightarrow> bool" where
  "is_dot c = (c \<noteq> CHR 0x0A \<and> c \<noteq> CHR 0x0D)"

definition is_name_char :: "char \<Rightarrow> bool" where
  "is_name_char c =
     (let n = (of_char c :: nat)
      in (97 \<le> n \<and> n \<le> 122) \<or> (65 \<le> n \<and> n \<le> 90) \<or> c = CHR ''_'' \<or> c = CHR ''-'')"

definition is_quote :: "char \<Rightarrow> bool" where
  "is_quote c = (c = CHR 0x22 \<or> c = CHR 0x27)"

definition trim :: "string \<Rightarrow> string" where
  "trim s = rev (dropWhile is_space (rev (dropWhile is_space s)))"

definition startsWith :: "string \<Rightarrow> string \<Rightarrow> bool" where
  "startsWith s p = (take (length p) s = p)"

definition endsWith :: "string \<Rightarrow> string \<Rightarrow> bool" where
  "endsWith s p = (length p \<le> length s \<and> drop (length s - length p) s = p)"

fun indexOf :: "string \<Rightarrow> string \<Rightarrow> nat option" where
  "indexOf [] p = (if p = [] then Some 0 else None)"
| "indexOf (c # s) p =
     (if startsWith (c # s) p then Some 0 else map_option Suc (indexOf s p))"

definition includes_str :: "string \<Rightarrow> string \<Rightarrow> bool" where
  "includes_str s p = (indexOf s p \<noteq> None)"

text \<open>
  The replacement text of \<^verbatim>\<open>String.prototype.replace\<close>: \<^verbatim>\<open>$$\<close> is a dollar sign,
  \<^verbatim>\<open>$&\<close> the matched text, \<^verbatim>\<open>$`\<close> the text before the match and \<^verbatim>\<open>$'\<close> the text
  after it; a string pattern has no capture groups, so every other \<^verbatim>\<open>$\<close> is literal.
\<close>

fun getSubstitution :: "string \<Rightarrow> string \<Rightarrow> string \<Rightarrow> string \<Rightarrow> string" where
  "getSubstitution matched pre post [] = []"
| "getSubstitution matched pre post [c] = [c]"
| "getSubstitution matched pre post (c # d # r) =
     (if c = CHR ''$'' \<and> d = CHR ''$'' then CHR ''$'' # getSubstitution matched pre post r
      else if c = CHR ''$'' \<and> d = CHR ''&'' then matched @ getSubstitution matched pre post r
      else if c = CHR ''$'' \<and> d = CHR 0x60 then pre @ getSubstitution matched pre post r
      else if c = CHR ''$'' \<and> d = CHR 0x27 then post @ getSubstitution matched pre post r
      else c # getSubstitution matched pre post (d # r))"

text \<open>\<^verbatim>\<open>s.replace(key, value)\<close> with a string \<^verbatim>\<open>key\<close>: the first occurrence only.\<close>

definition replace :: "string \<Rightarrow> string \<Rightarrow> string \<Rightarrow> string" where
  "replace s key val =
     (case indexOf s key of
        None \<Rightarrow> s
      | Some i \<Rightarrow>
          (let pre = take i s; post = drop (i + length key) s
           in pre @ getSubstitution key pre post val @ post))"

section \<open>Regular expressions\<close>

text \<open>
  The two patterns of the source use anchors, character classes, one-character look-behind
  and look-ahead, greedy \<^verbatim>\<open>?\<close>, greedy \<^verbatim>\<open>+\<close> on a class, alternation and capture
  groups.  \<open>rmatch\<close> is the backtracking matcher for these: the continuation \<open>k\<close> is the
  rest of the pattern, and a failure of the continuation makes the matcher try its next
  choice, in the order of the host language (longest first, left alternative first).
\<close>

datatype regex =
    Bol
  | Eol
  | Cls "char \<Rightarrow> bool"
  | Behind "char \<Rightarrow> bool"
  | Ahead "char \<Rightarrow> bool"
  | Seq regex regex
  | Alt regex regex
  | Opt regex
  | Plus "char \<Rightarrow> bool"
  | Grp string regex

type_synonym captures = "string \<Rightarrow> string option"

fun greedy :: "nat \<Rightarrow> (nat \<Rightarrow> 'a option) \<Rightarrow> 'a option" where
  "greedy 0 f = None"
| "greedy (Suc n) f = (case f (Suc n) of Some r \<Rightarrow> Some r | None \<Rightarrow> greedy n f)"

fun rmatch :: "regex \<Rightarrow> string \<Rightarrow> nat \<Rightarrow> captures \<Rightarrow> (nat \<Rightarrow> captures \<Rightarrow> captures option)
    \<Rightarrow> captures option" where
  "rmatch Bol s i c k = (if i = 0 then k i c else None)"
| "rmatch Eol s i c k = (if i = length s then k i c else None)"
| "rmatch (Cls p) s i c k = (if i < length s \<and> p (s ! i) then k (Suc i) c else None)"
| "rmatch (Behind p) s i c k =
     (if 0 < i \<and> i \<le> length s \<and> p (s ! (i - 1)) then k i c else None)"
| "rmatch (Ahead p) s i c k = (if i < length s \<and> p (s ! i) then k i c else None)"
| "rmatch (Seq a b) s i c k = rmatch a s i c (\<lambda>j d. rmatch b s j d k)"
| "rmatch (Alt a b) s i c k =
     (case rmatch a s i c k of Some r \<Rightarrow> Some r | None \<Rightarrow> rmatch b s i c k)"
| "rmatch (Opt a) s i c k =
     (case rmatch a s i c k of Some r \<Rightarrow> Some r | None \<Rightarrow> k i c)"
| "rmatch (Plus p) s i c k =
     greedy (length (takeWhile p (drop i s))) (\<lambda>n. k (i + n) c)"
| "rmatch (Grp g a) s i c k =
     rmatch a s i c (\<lambda>j d. k j (d(g \<mapsto> take (j - i) (drop i s))))"

text \<open>
  \<^verbatim>\<open>str.match(re)\<close> for a pattern that starts with \<^verbatim>\<open>^\<close> and has no flags: the only
  start position that can match is 0.
\<close>

definition match :: "string \<Rightarrow> regex \<Rightarrow> captures option" where
  "match s re = rmatch re s 0 Map.empty (\<lambda>j d. Some d)"

text \<open>
  \<^verbatim>\<open>/^(?<name>[a-zA-Z_-]+).?(?<paramString>(?:(?<=\().+(?=\))|(?<=\s).+))?.?$/\<close>
\<close>

definition MIXIN_PATTERN :: regex where
  "MIXIN_PATTERN =
     Seq Bol
    (Seq (Grp ''name'' (Plus is_name_char))
    (Seq (Opt (Cls is_dot))
    (Seq (Opt (Grp ''paramString''
            (Alt (Seq (Behind (\<lambda>c. c = CHR ''(''))
                 (Seq (Plus is_dot) (Ahead (\<lambda>c. c = CHR '')''))))
                 (Seq (Behind is_space) (Plus is_dot)))))
    (Seq (Opt (Cls is_dot))
         Eol))))"

text \<open>\<^verbatim>\<open>/^["']?((?<=["']).+(?=["'])|(?:.+))["']?$/\<close>\<close>

definition MAYBE_QUOTED_PATTERN :: regex where
  "MAYBE_QUOTED_PATTERN =
     Seq Bol
    (Seq (Opt (Cls is_quote))
    (Seq (Grp ''1''
            (Alt (Seq (Behind is_quote) (Seq (Plus is_dot) (Ahead is_quote)))
                 (Plus is_dot)))
    (Seq (Opt (Cls is_quote))
         Eol)))"

section \<open>The node tree\<close>

text \<open>
  The host library's tree: declarations, rules, at-rules and comments.  An at-rule without
  a block has no child list (\<open>None\<close>); one with an empty block has the empty list.  A node's
  \<open>source\<close> is the line and column where it starts, when it has one.  Raw whitespace
  is not part of the model, so a clone of a node is the node itself.
\<close>

type_synonym source = "(nat \<times> nat) option"

datatype node =
    Decl source string string
  | Rule source string "node list"
  | AtRule source string string "node list option"
  | Comment source string

fun node_source :: "node \<Rightarrow> source" where
  "node_source (Decl s p v) = s"
| "node_source (Rule s sel ks) = s"
| "node_source (AtRule s n p ks) = s"
| "node_source (Comment s t) = s"

fun set_source :: "source \<Rightarrow> node \<Rightarrow> node" where
  "set_source s (Decl s' p v) = Decl s p v"
| "set_source s (Rule s' sel ks) = Rule s sel ks"
| "set_source s (AtRule s' n p ks) = AtRule s n p ks"
| "set_source s (Comment s' t) = Comment s t"

fun children :: "node \<Rightarrow> node list option" where
  "children (Rule s sel ks) = Some ks"
| "children (AtRule s n p ks) = ks"
| "children (Decl s p v) = None"
| "children (Comment s t) = None"

text \<open>
  Errors: \<open>CssSyntaxError\<close> is what \<^verbatim>\<open>node.error(message)\<close> builds, with the position
  of the node; \<open>Error\<close> is \<^verbatim>\<open>new Error(message)\<close>; \<open>TypeError\<close> is the host language's
  own failure on a property read of \<^verbatim>\<open>undefined\<close>.
\<close>

datatype error =
    CssSyntaxError source string
  | Error string
  | TypeError string

definition node_error :: "node \<Rightarrow> string \<Rightarrow> error" where
  "node_error rule msg = CssSyntaxError (node_source rule) msg"

text \<open>
  What the code takes from the host: \<^verbatim>\<open>helpers.list.comma\<close>, the run of the variable
  plugin with \<^verbatim>\<open>{ only: values }\<close> over a fragment, and \<^verbatim>\<open>node.toString()\<close>.
\<close>

record helpers =
  list_comma :: "string \<Rightarrow> string list"
  process_vars :: "(string \<Rightarrow> string option) \<Rightarrow> node list \<Rightarrow> node list"
  toString :: "node \<Rightarrow> string"

record opts =
  silent :: bool

section \<open>Definitions and the registry\<close>

fun parseMixin :: "helpers \<Rightarrow> node \<Rightarrow> error + string \<times> string" where
  "parseMixin h (AtRule s n params ks) =
     (case match params MIXIN_PATTERN of
        None \<Rightarrow>
          Inl (node_error (AtRule s n params ks)
                (''Invalid mixin definition: '' @ toString h (AtRule s n params ks)))
      | Some groups \<Rightarrow>
          (case groups ''name'' of
             None \<Rightarrow>
               Inl (node_error (AtRule s n params ks)
                     (''Invalid mixin definition: '' @ toString h (AtRule s n params ks)))
           | Some name \<Rightarrow>
               if name = [] then
                 Inl (node_error (AtRule s n params ks)
                       (''Invalid mixin definition: '' @ toString h (AtRule s n params ks)))
               else
                 Inr (name, case groups ''paramString'' of None \<Rightarrow> [] | Some p \<Rightarrow> trim p)))"
| "parseMixin h (Decl s p v) = Inl (TypeError ''rule.params is undefined'')"
| "parseMixin h (Rule s sel ks) = Inl (TypeError ''rule.params is undefined'')"
| "parseMixin h (Comment s t) = Inl (TypeError ''rule.params is undefined'')"

definition unwrap :: "string \<Rightarrow> string" where
  "unwrap str =
     (case match str MAYBE_QUOTED_PATTERN of
        None \<Rightarrow> str
      | Some groups \<Rightarrow> (case groups ''1'' of None \<Rightarrow> str | Some g \<Rightarrow> g))"

text \<open>
  A registry entry.  \<open>CssMixin r\<close> is the case \<^verbatim>\<open>mixin.name === 'mixin'\<close>: the at-rule
  \<open>r\<close> that \<open>addMixin\<close> stored.  \<open>ObjectMixin ns\<close> is a plain object, given by the nodes
  \<open>ns\<close> that the object adapter converts it to.  \<open>PrimitiveMixin t\<close> is a number, string
  or boolean, with \<open>t\<close> its \<^verbatim>\<open>typeof\<close>.  Callable entries run arbitrary host code on the
  shared tree and have no counterpart here.
\<close>

datatype mixin_value =
    CssMixin node
  | ObjectMixin "node list"
  | PrimitiveMixin string

record meta =
  args :: "(string \<times> string) list"
  content :: bool
  mixin :: mixin_value
  file_path :: "string option"

type_synonym mixins = "string \<Rightarrow> meta option"

text \<open>
  \<^verbatim>\<open>mixins[name]\<close> on an object created by \<^verbatim>\<open>{}\<close>: a name that is no key of its own
  is still found when \<^verbatim>\<open>Object.prototype\<close> has it, and what is found there has no
  \<^verbatim>\<open>mixin\<close> property.  (A definition named \<^verbatim>\<open>__proto__\<close> is not covered.)
\<close>

definition Object_prototype :: "string list" where
  "Object_prototype =
     [''constructor'', ''__defineGetter__'', ''__defineSetter__'', ''hasOwnProperty'',
      ''__lookupGetter__'', ''__lookupSetter__'', ''isPrototypeOf'', ''propertyIsEnumerable'',
      ''toString'', ''valueOf'', ''__proto__'', ''toLocaleString'']"

datatype lookup = Absent | Inherited | Own meta

definition lookup_mixin :: "mixins \<Rightarrow> string \<Rightarrow> lookup" where
  "lookup_mixin ms name =
     (case ms name of
        Some m \<Rightarrow> Own m
      | None \<Rightarrow> if name \<in> set Object_prototype then Inherited else Absent)"

text \<open>One formal parameter of a definition, \<^verbatim>\<open>$name: default\<close>, as a pair.\<close>

definition formal :: "string \<Rightarrow> string \<times> string" where
  "formal str =
     (let arg = takeWhile (\<lambda>c. c \<noteq> CHR '':'') str;
          defaults = trim (drop (length arg + 1) str)
      in (trim (drop 1 arg), unwrap defaults))"

text \<open>\<^verbatim>\<open>rule.walkAtRules('mixin-content', ...)\<close> of \<open>addMixin\<close>: is there a placeholder?\<close>

fun has_mixin_content :: "node list \<Rightarrow> bool" where
  "has_mixin_content [] = False"
| "has_mixin_content (AtRule s n p None # rest) =
     (n = ''mixin-content'' \<or> has_mixin_content rest)"
| "has_mixin_content (AtRule s n p (Some ks) # rest) =
     (n = ''mixin-content'' \<or> has_mixin_content ks \<or> has_mixin_content rest)"
| "has_mixin_content (Rule s sel ks # rest) = (has_mixin_content ks \<or> has_mixin_content rest)"
| "has_mixin_content (Decl s p v # rest) = has_mixin_content rest"
| "has_mixin_content (Comment s t # rest) = has_mixin_content rest"

definition addMixin ::
  "helpers \<Rightarrow> mixins \<Rightarrow> node \<Rightarrow> string option \<Rightarrow> error + mixins" where
  "addMixin h ms rule fl =
     (case parseMixin h rule of
        Inl e \<Rightarrow> Inl e
      | Inr (name, paramString) \<Rightarrow>
          (let formals = (if 0 < length paramString
                          then map formal (list_comma h paramString) else []);
               cont = (case children rule of None \<Rightarrow> False | Some ks \<Rightarrow> has_mixin_content ks)
           in Inr (ms(name \<mapsto>
                 \<lparr>args = formals, content = cont, mixin = CssMixin rule,
                  file_path = (case fl of None \<Rightarrow> None | Some f \<Rightarrow> if f = [] then None else Some f)\<rparr>))))"

section \<open>Content injection and single arguments\<close>

text \<open>
  \<open>processMixinContent\<close> walks every at-rule below the fragment.  A placeholder is
  replaced by the children of the invocation, or removed; the walk goes on behind what
  it inserted.
\<close>

fun processMixinContent :: "node list \<Rightarrow> node \<Rightarrow> node list" where
  "processMixinContent [] frm = []"
| "processMixinContent (AtRule s n p None # rest) frm =
     (if n = ''mixin-content'' then
        (case children frm of
           None \<Rightarrow> processMixinContent rest frm
         | Some ks \<Rightarrow>
             if 0 < length ks then ks @ processMixinContent rest frm
             else processMixinContent rest frm)
      else AtRule s n p None # processMixinContent rest frm)"
| "processMixinContent (AtRule s n p (Some cs) # rest) frm =
     (if n = ''mixin-content'' then
        (case children frm of
           None \<Rightarrow> processMixinContent rest frm
         | Some ks \<Rightarrow>
             if 0 < length ks then ks @ processMixinContent rest frm
             else processMixinContent rest frm)
      else AtRule s n p (Some (processMixinContent cs frm)) # processMixinContent rest frm)"
| "processMixinContent (Rule s sel cs # rest) frm =
     Rule s sel (processMixinContent cs frm) # processMixinContent rest frm"
| "processMixinContent (Decl s p v # rest) frm = Decl s p v # processMixinContent rest frm"
| "processMixinContent (Comment s t # rest) frm = Comment s t # processMixinContent rest frm"

text \<open>
  The single-argument map is a \<^verbatim>\<open>Map\<close>: keys in the order of their first insertion,
  each key once.
\<close>

type_synonym single_arguments = "(string \<times> string) list"

fun map_set :: "string \<Rightarrow> string \<Rightarrow> single_arguments \<Rightarrow> single_arguments" where
  "map_set k v [] = [(k, v)]"
| "map_set k v ((k', v') # m) = (if k = k' then (k, v) # m else (k', v') # map_set k v m)"

definition new_Map :: "(string \<times> string) list \<Rightarrow> single_arguments" where
  "new_Map kvs = foldl (\<lambda>m (k, v). map_set k v m) [] kvs"

text \<open>The loop body of \<open>unwrapSingleArguments\<close> on one declaration value.\<close>

definition unwrapValue :: "string \<Rightarrow> single_arguments \<Rightarrow> string" where
  "unwrapValue v m =
     (if includes_str v ''single-arg''
      then foldl (\<lambda>newValue (key, val). replace newValue key val) v m
      else v)"

fun unwrapEach :: "node list \<Rightarrow> single_arguments \<Rightarrow> node list" where
  "unwrapEach [] m = []"
| "unwrapEach (Decl s p v # rest) m = Decl s p (unwrapValue v m) # unwrapEach rest m"
| "unwrapEach (Rule s sel cs # rest) m = Rule s sel (unwrapEach cs m) # unwrapEach rest m"
| "unwrapEach (AtRule s n p ks # rest) m = AtRule s n p ks # unwrapEach rest m"
| "unwrapEach (Comment s t # rest) m = Comment s t # unwrapEach rest m"

definition unwrapSingleArguments :: "node list \<Rightarrow> single_arguments \<Rightarrow> node list" where
  "unwrapSingleArguments rules m = (if length m \<le> 0 then rules else unwrapEach rules m)"

definition resolveSingleArgumentValue :: "string \<Rightarrow> node \<Rightarrow> error + string" where
  "resolveSingleArgumentValue val parentNode =
     (let cont = trim (drop (length ''single-arg'') val)
      in if \<not> startsWith cont ''('' \<or> \<not> endsWith cont '')'' then
           Inl (node_error parentNode
                 (''Content of single-arg must be wrapped in brackets: '' @ val))
         else Inr (butlast (drop 1 cont)))"

section \<open>Expansion of an invocation\<close>

text \<open>The actual parameters of an invocation, from its parameter string.\<close>

definition invocationParams :: "helpers \<Rightarrow> string \<Rightarrow> string list" where
  "invocationParams h paramString =
     (if trim paramString = [] then [] else map unwrap (list_comma h paramString))"

fun resolveAll :: "node \<Rightarrow> string list \<Rightarrow> error + (string \<times> string) list" where
  "resolveAll rule [] = Inr []"
| "resolveAll rule (param # ps) =
     (case resolveSingleArgumentValue param rule of
        Inl e \<Rightarrow> Inl e
      | Inr v \<Rightarrow>
          (case resolveAll rule ps of
             Inl e \<Rightarrow> Inl e
           | Inr kvs \<Rightarrow> Inr ((param, v) # kvs)))"

definition singleArgumentsMap :: "node \<Rightarrow> string list \<Rightarrow> error + single_arguments" where
  "singleArgumentsMap rule params =
     (case resolveAll rule (filter (\<lambda>param. startsWith param ''single-arg'') params) of
        Inl e \<Rightarrow> Inl e
      | Inr kvs \<Rightarrow> Inr (new_Map kvs))"

text \<open>
  The binding loop: \<^verbatim>\<open>values[meta.args[i][0]] = params[i] || meta.args[i][1]\<close> for every
  index of the formal parameters.  \<^verbatim>\<open>params[i]\<close> is falsy when the index is out of range
  and when the actual is the empty string.
\<close>

definition bound :: "(string \<times> string) list \<Rightarrow> string list \<Rightarrow> nat \<Rightarrow> string" where
  "bound formals params i =
     (if i < length params \<and> params ! i \<noteq> [] then params ! i else snd (formals ! i))"

definition bindValues ::
  "(string \<times> string) list \<Rightarrow> string list \<Rightarrow> (string \<Rightarrow> string option)" where
  "bindValues formals params =
     foldl (\<lambda>values i. values(fst (formals ! i) \<mapsto> bound formals params i))
       Map.empty [0..<length formals]"

definition insertObject :: "node \<Rightarrow> node list \<Rightarrow> single_arguments \<Rightarrow> node list" where
  "insertObject rule obj singleArguments =
     (let root = map (set_source (node_source rule)) obj;
          root = processMixinContent root rule
      in unwrapSingleArguments root singleArguments)"

text \<open>
  \<open>expandMixin\<close> is \<open>insertMixin\<close> from the registry lookup on.  Its result is the list
  of nodes that stands where the invocation stood: what was inserted before it, the
  invocation itself being removed.  The branch \<^verbatim>\<open>typeof mixin === 'function'\<close> has no
  counterpart, as \<open>mixin_value\<close> has no callable entries.
\<close>

definition expandMixin ::
  "opts \<Rightarrow> helpers \<Rightarrow> mixins \<Rightarrow> node \<Rightarrow> string \<Rightarrow> string list \<Rightarrow> error + node list" where
  "expandMixin os h ms rule name params =
     (case singleArgumentsMap rule params of
        Inl e \<Rightarrow> Inl e
      | Inr singleArguments \<Rightarrow>
          (case lookup_mixin ms name of
             Absent \<Rightarrow>
               if \<not> silent os then Inl (node_error rule (''Undefined mixin '' @ name))
               else Inr []
           | Inherited \<Rightarrow> Inl (TypeError ''mixin is undefined'')
           | Own m \<Rightarrow>
               (case mixin m of
                  CssMixin r \<Rightarrow>
                    (case children r of
                       None \<Rightarrow> Inl (TypeError ''mixin.nodes is undefined'')
                     | Some body \<Rightarrow>
                         (let values = bindValues (args m) params;
                              proxy = body;
                              proxy = (if 0 < length (args m)
                                       then process_vars h values proxy else proxy);
                              proxy = (if content m
                                       then processMixinContent proxy rule else proxy)
                          in Inr (unwrapSingleArguments proxy singleArguments)))
                | ObjectMixin obj \<Rightarrow> Inr (insertObject rule obj singleArguments)
                | PrimitiveMixin t \<Rightarrow>
                    Inl (Error (''Wrong '' @ name @ '' mixin type '' @ t)))))"

definition insertMixin :: "opts \<Rightarrow> helpers \<Rightarrow> mixins \<Rightarrow> node \<Rightarrow> error + node list" where
  "insertMixin os h ms rule =
     (case parseMixin h rule of
        Inl e \<Rightarrow> Inl e
      | Inr (name, paramString) \<Rightarrow>
          expandMixin os h ms rule name (invocationParams h paramString))"

section \<open>The host's services\<close>

text \<open>
  Modelled from the spec: the host's helper that splits a string on top-level commas
  (sections 2, 4.2 and 6): commas inside parentheses do not separate, and every token is
  trimmed.
\<close>

fun comma_split :: "nat \<Rightarrow> string \<Rightarrow> string \<Rightarrow> string list" where
  "comma_split d cur [] = [trim cur]"
| "comma_split d cur (c # s) =
     (if c = CHR ''('' then comma_split (Suc d) (cur @ [c]) s
      else if c = CHR '')'' then comma_split (d - 1) (cur @ [c]) s
      else if c = CHR '','' \<and> d = 0 then trim cur # comma_split 0 [] s
      else comma_split d (cur @ [c]) s)"

definition comma :: "string \<Rightarrow> string list" where
  "comma str = comma_split 0 [] str"

text \<open>
  Modelled from the spec: the host's sub-processing call that substitutes named variables
  over a fragment (sections 4.4 and 6): every occurrence of \<^verbatim>\<open>$name\<close> with a bound
  name is replaced by the bound value, in declaration values, selectors and at-rule
  parameters; other names are left as they are.
\<close>

definition is_var_char :: "char \<Rightarrow> bool" where
  "is_var_char c =
     (let n = (of_char c :: nat)
      in (97 \<le> n \<and> n \<le> 122) \<or> (65 \<le> n \<and> n \<le> 90) \<or> (48 \<le> n \<and> n \<le> 57)
         \<or> c = CHR ''_'' \<or> c = CHR ''-'')"

definition flush_var :: "(string \<Rightarrow> string option) \<Rightarrow> string \<Rightarrow> string" where
  "flush_var values nm =
     (if nm = [] then ''$''
      else case values nm of Some v \<Rightarrow> v | None \<Rightarrow> CHR ''$'' # nm)"

fun subst_vars :: "(string \<Rightarrow> string option) \<Rightarrow> string option \<Rightarrow> string \<Rightarrow> string" where
  "subst_vars values None [] = []"
| "subst_vars values (Some nm) [] = flush_var values nm"
| "subst_vars values None (c # s) =
     (if c = CHR ''$'' then subst_vars values (Some []) s else c # subst_vars values None s)"
| "subst_vars values (Some nm) (c # s) =
     (if is_var_char c then subst_vars values (Some (nm @ [c])) s
      else flush_var values nm @
        (if c = CHR ''$'' then subst_vars values (Some []) s else c # subst_vars values None s))"

fun simple_vars :: "(string \<Rightarrow> string option) \<Rightarrow> node list \<Rightarrow> node list" where
  "simple_vars values [] = []"
| "simple_vars values (Decl s p v # rest) =
     Decl s p (subst_vars values None v) # simple_vars values rest"
| "simple_vars values (Rule s sel cs # rest) =
     Rule s (subst_vars values None sel) (simple_vars values cs) # simple_vars values rest"
| "simple_vars values (AtRule s n p None # rest) =
     AtRule s n (subst_vars values None p) None # simple_vars values rest"
| "simple_vars values (AtRule s n p (Some cs) # rest) =
     AtRule s n (subst_vars values None p) (Some (simple_vars values cs))
       # simple_vars values rest"
| "simple_vars values (Comment s t # rest) = Comment s t # simple_vars values rest"

text \<open>
  Modelled from the spec: the host's printer, as far as the message of a malformed
  definition needs it (section 4.1: the message includes the header text).
\<close>

fun header_text :: "node \<Rightarrow> string" where
  "header_text (AtRule s n p ks) = CHR ''@'' # n @ '' '' @ p"
| "header_text (Rule s sel ks) = sel"
| "header_text (Decl s p v) = p @ '': '' @ v"
| "header_text (Comment s t) = t"

definition host :: helpers where
  "host = \<lparr>list_comma = comma, process_vars = simple_vars, toString = header_text\<rparr>"

section \<open>The processing run\<close>




section \<open>Notions of the specification\<close>

text \<open>
  The specification's words for content injection with empty content: the body with its
  placeholders removed and no other change.
\<close>

fun remove_placeholders :: "node list \<Rightarrow> node list" where
  "remove_placeholders [] = []"
| "remove_placeholders (AtRule s n p None # rest) =
     (if n = ''mixin-content'' then remove_placeholders rest
      else AtRule s n p None # remove_placeholders rest)"
| "remove_placeholders (AtRule s n p (Some cs) # rest) =
     (if n = ''mixin-content'' then remove_placeholders rest
      else AtRule s n p (Some (remove_placeholders cs)) # remove_placeholders rest)"
| "remove_placeholders (Rule s sel cs # rest) =
     Rule s sel (remove_placeholders cs) # remove_placeholders rest"
| "remove_placeholders (Decl s p v # rest) = Decl s p v # remove_placeholders rest"
| "remove_placeholders (Comment s t # rest) = Comment s t # remove_placeholders rest"

text \<open>
  A fragment with the values blanked of those declarations that stand at its top level or
  below rules only.  Two fragments with the same image differ at most in such values; in
  particular they have the same at-rules, with everything below them.
\<close>

fun erase_values :: "node list \<Rightarrow> node list" where
  "erase_values [] = []"
| "erase_values (Decl s p v # rest) = Decl s p [] # erase_values rest"
| "erase_values (Rule s sel cs # rest) = Rule s sel (erase_values cs) # erase_values rest"
| "erase_values (AtRule s n p ks # rest) = AtRule s n p ks # erase_values rest"
| "erase_values (Comment s t # rest) = Comment s t # erase_values rest"


text \<open>
  A definition met in an empty registry, then an invocation: what stands where the
  invocation stood.
\<close>

definition define_then_include ::
  "opts \<Rightarrow> helpers \<Rightarrow> node \<Rightarrow> node \<Rightarrow> error + node list" where
  "define_then_include os h defn incl =
     (case addMixin h Map.empty defn None of
        Inl e \<Rightarrow> Inl e
      | Inr ms \<Rightarrow> insertMixin os h ms incl)"






section \<open>Content injection\<close>

lemma processMixinContent_append:
  "processMixinContent (xs @ ys) frm = processMixinContent xs frm @ processMixinContent ys frm"
  by (induction xs frm rule: processMixinContent.induct) (auto split: option.splits)

lemma processMixinContent_plain:
  "\<not> has_mixin_content xs \<Longrightarrow> processMixinContent xs frm = xs"
  by (induction xs frm rule: processMixinContent.induct) auto

lemma processMixinContent_empty:
  "children frm = None \<or> children frm = Some [] \<Longrightarrow>
   processMixinContent body frm = remove_placeholders body"
  by (induction body frm rule: processMixinContent.induct) (auto split: option.splits)

text \<open>
  C6.  When the invocation carries at least one child, every placeholder of the body is
  replaced by the full list of the invocation's children, whatever stands before and
  after it, also below a rule or another at-rule; a body of two placeholders yields the
  children twice.
\<close>

theorem placeholders_each_get_content:
  assumes "children frm = Some cs" and "cs \<noteq> []"
  shows "processMixinContent (pre @ AtRule s ''mixin-content'' p ks # post) frm =
           processMixinContent pre frm @ cs @ processMixinContent post frm
       \<and> processMixinContent
           [Rule s' sel (pre @ AtRule s ''mixin-content'' p ks # post)] frm =
           [Rule s' sel (processMixinContent pre frm @ cs @ processMixinContent post frm)]
       \<and> (n \<noteq> ''mixin-content'' \<longrightarrow>
          processMixinContent
            [AtRule s' n p' (Some (pre @ AtRule s ''mixin-content'' p ks # post))] frm =
            [AtRule s' n p'
              (Some (processMixinContent pre frm @ cs @ processMixinContent post frm))])
       \<and> processMixinContent
           [AtRule s ''mixin-content'' p ks, AtRule s' ''mixin-content'' p' ks'] frm = cs @ cs"
proof -
  have one: "processMixinContent (AtRule t ''mixin-content'' q js # rest) frm =
      cs @ processMixinContent rest frm" for t q js rest
    using assms by (cases js) simp_all
  have "processMixinContent (pre @ AtRule s ''mixin-content'' p ks # post) frm =
      processMixinContent pre frm @ cs @ processMixinContent post frm"
    by (simp add: processMixinContent_append one)
  moreover have "processMixinContent
      [AtRule s ''mixin-content'' p ks, AtRule s' ''mixin-content'' p' ks'] frm = cs @ cs"
    by (simp add: one)
  ultimately show ?thesis by simp
qed

theorem placeholders_each_get_content_witness:
  "processMixinContent
     [AtRule None ''mixin-content'' [] None, AtRule None ''mixin-content'' [] None]
     (AtRule None ''include'' ''m'' (Some [Decl None ''a'' ''1''])) =
   [Decl None ''a'' ''1'', Decl None ''a'' ''1'']"
proof -
  have h1: "children (AtRule None ''include'' ''m'' (Some [Decl None ''a'' ''1''])) =
      Some [Decl None ''a'' ''1'']" by simp
  have h2: "[Decl None ''a'' ''1''] \<noteq> []" by simp
  from placeholders_each_get_content [OF h1 h2, where s = None and p = "[]" and ks = None
      and s' = None and p' = "[]" and ks' = None]
  show ?thesis by simp
qed

text \<open>
  C7.  When the invocation carries no child, content injection is exactly the removal of
  the placeholders; a body with one placeholder, at its top level, loses that node and
  keeps every other node as it was.
\<close>

theorem empty_content_removes_placeholder:
  assumes "children frm = None \<or> children frm = Some []"
  shows "processMixinContent body frm = remove_placeholders body
       \<and> (\<not> has_mixin_content pre \<and> \<not> has_mixin_content post \<longrightarrow>
          processMixinContent (pre @ AtRule s ''mixin-content'' p ks # post) frm = pre @ post)"
proof -
  have one: "processMixinContent (AtRule s ''mixin-content'' p ks # post) frm =
      processMixinContent post frm"
    using assms by (cases ks) auto
  have "processMixinContent (pre @ AtRule s ''mixin-content'' p ks # post) frm = pre @ post"
    if "\<not> has_mixin_content pre" and "\<not> has_mixin_content post"
    using that by (simp add: processMixinContent_append processMixinContent_plain one
        del: processMixinContent.simps)
  with processMixinContent_empty [OF assms] show ?thesis by blast
qed

theorem empty_content_removes_placeholder_witness:
  "processMixinContent
     [Decl None ''a'' ''1'', AtRule None ''mixin-content'' [] None, Decl None ''b'' ''2'']
     (AtRule None ''include'' ''m'' None) =
   [Decl None ''a'' ''1'', Decl None ''b'' ''2'']"
proof -
  have h: "children (AtRule None ''include'' ''m'' None) = None
      \<or> children (AtRule None ''include'' ''m'' None) = Some []" by simp
  have pre: "\<not> has_mixin_content [Decl None ''a'' ''1'']" by simp
  have post: "\<not> has_mixin_content [Decl None ''b'' ''2'']" by simp
  from empty_content_removes_placeholder [OF h, where pre = "[Decl None ''a'' ''1'']"
      and post = "[Decl None ''b'' ''2'']" and s = None and p = "[]" and ks = None] pre post
  show ?thesis by simp
qed

section \<open>Single arguments\<close>














lemma unwrapEach_append:
  "unwrapEach (xs @ ys) m = unwrapEach xs m @ unwrapEach ys m"
  by (induction xs m rule: unwrapEach.induct) auto

lemma erase_unwrapEach: "erase_values (unwrapEach rules m) = erase_values rules"
  by (induction rules m rule: unwrapEach.induct) auto

text \<open>
  C10.  The replacement pass changes nothing but the values of declarations that stand at
  the top level of the fragment or below rules: an at-rule comes out as it went in, with
  everything below it, wherever it stands, and the pass goes into the children of a rule.
\<close>

theorem single_arguments_skip_at_rules:
  "erase_values (unwrapSingleArguments rules m) = erase_values rules
   \<and> unwrapSingleArguments (pre @ AtRule s n p ks # post) m =
       unwrapSingleArguments pre m @ AtRule s n p ks # unwrapSingleArguments post m
   \<and> unwrapSingleArguments (pre @ Rule s sel cs # post) m =
       unwrapSingleArguments pre m @ Rule s sel (unwrapSingleArguments cs m)
         # unwrapSingleArguments post m
   \<and> unwrapSingleArguments (pre @ Decl s pr v # post) m =
       unwrapSingleArguments pre m @ Decl s pr (if m = [] then v else unwrapValue v m)
         # unwrapSingleArguments post m"
  by (simp add: unwrapSingleArguments_def erase_unwrapEach unwrapEach_append)

theorem single_arguments_skip_at_rules_witness:
  "unwrapSingleArguments
     [AtRule None ''media'' ''screen'' (Some [Decl None ''a'' ''single-arg(1, 2)''])]
     [(''single-arg(1, 2)'', ''1, 2'')] =
   [AtRule None ''media'' ''screen'' (Some [Decl None ''a'' ''single-arg(1, 2)''])]"
  using single_arguments_skip_at_rules [where m = "[(''single-arg(1, 2)'', ''1, 2'')]"
      and pre = "[]" and s = None and n = "''media''" and p = "''screen''"
      and ks = "Some [Decl None ''a'' ''single-arg(1, 2)'']" and post = "[]"]
  by (simp add: unwrapSingleArguments_def)

text \<open>
  C5.  The replacement pass replaces the first occurrence of a token in a declaration
  value and no other: with a body \<^verbatim>\<open>a: $x $x\<close> and the invocation
  \<^verbatim>\<open>@include a single-arg(1, 2)\<close> the second occurrence of the token stays in
  the value.
\<close>

theorem second_occurrence_is_kept:
  "define_then_include \<lparr>silent = False\<rparr> host
     (AtRule None ''mixin'' ''a $x'' (Some [Decl None ''a'' ''$x $x'']))
     (AtRule None ''include'' ''a single-arg(1, 2)'' None) =
   Inr [Decl None ''a'' ''1, 2 single-arg(1, 2)'']"
  by code_simp

section \<open>Binding of parameters\<close>

lemma foldl_update_last:
  "i < n \<Longrightarrow> (\<forall>j. i < j \<and> j < n \<longrightarrow> f j \<noteq> f i) \<Longrightarrow>
   foldl (\<lambda>values j. values(f j \<mapsto> g j)) acc [0..<n] (f i) = Some (g i)"
proof (induction n)
  case 0
  then show ?case by simp
next
  case (Suc n)
  show ?case
  proof (cases "i = n")
    case True
    then show ?thesis by simp
  next
    case False
    with Suc.prems(1) have less: "i < n" by simp
    with Suc.prems(2) have "f n \<noteq> f i" by blast
    moreover from Suc.prems(2) have "\<forall>j. i < j \<and> j < n \<longrightarrow> f j \<noteq> f i" by simp
    ultimately show ?thesis using Suc.IH [OF less] by simp
  qed
qed

lemma bindValues_at:
  assumes "i < length formals"
    and "\<forall>j. i < j \<and> j < length formals \<longrightarrow> fst (formals ! j) \<noteq> fst (formals ! i)"
  shows "bindValues formals params (fst (formals ! i)) =
     Some (if i < length params \<and> params ! i \<noteq> [] then params ! i else snd (formals ! i))"
  unfolding bindValues_def
  using foldl_update_last [of i "length formals" "\<lambda>j. fst (formals ! j)"
      "bound formals params", OF assms]
  by (simp add: bound_def)

lemma unwrap_empty: "unwrap [] = []"
  by (simp add: unwrap_def match_def MAYBE_QUOTED_PATTERN_def)

lemma formal_no_default: "CHR '':'' \<notin> set str \<Longrightarrow> snd (formal str) = []"
proof -
  assume "CHR '':'' \<notin> set str"
  then have tw: "takeWhile (\<lambda>c. c \<noteq> CHR '':'') str = str"
    by (induction str) auto
  show ?thesis unfolding formal_def Let_def tw by (simp add: trim_def unwrap_empty)
qed

lemma bound_take:
  "i < length formals \<Longrightarrow>
   bound formals (take (length formals) params) i = bound formals params i"
  by (simp add: bound_def)

lemma bindValues_take:
  "bindValues formals (take (length formals) params) = bindValues formals params"
  unfolding bindValues_def
  by (rule foldl_cong) (simp_all add: bound_take)

lemma singleArgumentsMap_take:
  assumes "\<forall>param \<in> set (drop n params). \<not> startsWith param ''single-arg''"
  shows "singleArgumentsMap rule (take n params) = singleArgumentsMap rule params"
proof -
  have "filter (\<lambda>param. startsWith param ''single-arg'') (take n params @ drop n params) =
      filter (\<lambda>param. startsWith param ''single-arg'') (take n params)"
    using assms by (simp del: append_take_drop_id)
  then show ?thesis by (simp add: singleArgumentsMap_def)
qed

text \<open>
  C1, as the code has it.  The value bound to the formal parameter at index \<open>i\<close> (the last
  one of its name) is the actual at \<open>i\<close> when there is one and it is not the empty string,
  else the declared default; a formal parameter declared without a default has the empty
  default.  When nothing else applies, the expansion is the body with these values
  substituted by the host.  The example of the specification expands to \<^verbatim>\<open>v: 1 2 c\<close>.
\<close>

theorem positional_binding:
  "(i < length formals
      \<and> (\<forall>j. i < j \<and> j < length formals \<longrightarrow> fst (formals ! j) \<noteq> fst (formals ! i)) \<longrightarrow>
      bindValues formals params (fst (formals ! i)) =
        Some (if i < length params \<and> params ! i \<noteq> [] then params ! i
              else snd (formals ! i)))
   \<and> (CHR '':'' \<notin> set str \<longrightarrow> snd (formal str) = [])
   \<and> (lookup_mixin ms name = Own m \<and> mixin m = CssMixin r \<and> children r = Some body
        \<and> args m \<noteq> [] \<and> \<not> content m \<and> singleArgumentsMap rule params = Inr [] \<longrightarrow>
      expandMixin os h ms rule name params =
        Inr (process_vars h (bindValues (args m) params) body))
   \<and> define_then_include os host
       (AtRule s ''mixin'' ''m $a, $b: b, $c: c'' (Some [Decl s' ''v'' ''$a $b $c'']))
       (AtRule s'' ''include'' ''m 1, 2'' None) =
     Inr [Decl s' ''v'' ''1 2 c'']"
proof -
  have "define_then_include os host
       (AtRule s ''mixin'' ''m $a, $b: b, $c: c'' (Some [Decl s' ''v'' ''$a $b $c'']))
       (AtRule s'' ''include'' ''m 1, 2'' None) =
     Inr [Decl s' ''v'' ''1 2 c'']"
    by code_simp
  moreover have "lookup_mixin ms name = Own m \<and> mixin m = CssMixin r \<and> children r = Some body
        \<and> args m \<noteq> [] \<and> \<not> content m \<and> singleArgumentsMap rule params = Inr [] \<longrightarrow>
      expandMixin os h ms rule name params =
        Inr (process_vars h (bindValues (args m) params) body)"
    by (simp add: expandMixin_def unwrapSingleArguments_def)
  ultimately show ?thesis
    using bindValues_at [of i formals params] formal_no_default [of str] by blast
qed

theorem positional_binding_witness:
  "bindValues [(''a'', []), (''b'', ''b''), (''c'', ''c'')] [''1'', ''2''] ''b'' = Some ''2''
   \<and> bindValues [(''a'', []), (''b'', ''b''), (''c'', ''c'')] [''1'', ''2''] ''c'' = Some ''c''"
proof -
  let ?F = "[(''a'', []), (''b'', ''b''), (''c'', ''c'')]"
  have d1: "\<forall>j. 1 < j \<and> j < length ?F \<longrightarrow> fst (?F ! j) \<noteq> fst (?F ! 1)"
    by (auto simp: nth_Cons' less_Suc_eq numeral_3_eq_3)
  have d2: "\<forall>j. 2 < j \<and> j < length ?F \<longrightarrow> fst (?F ! j) \<noteq> fst (?F ! 2)"
    by (auto simp: nth_Cons')
  from positional_binding [of 1 ?F "[''1'', ''2'']"] d1
  have "bindValues ?F [''1'', ''2''] ''b'' = Some ''2''" by simp
  moreover from positional_binding [of 2 ?F "[''1'', ''2'']"] d2
  have "bindValues ?F [''1'', ''2''] ''c'' = Some ''c''" by simp
  ultimately show ?thesis by simp
qed

text \<open>
  C1, as the claim has it, fails on an actual that is present and empty: in
  \<^verbatim>\<open>@include m 1, , 3\<close> the second actual is the empty string, and the second formal
  parameter is bound to its default \<^verbatim>\<open>b\<close>.
\<close>

theorem empty_actual_takes_default:
  "invocationParams host ''1, , 3'' = [''1'', [], ''3'']
   \<and> bindValues [(''a'', []), (''b'', ''b''), (''c'', ''c'')]
        (invocationParams host ''1, , 3'') ''b''
      \<noteq> Some (invocationParams host ''1, , 3'' ! 1)
   \<and> define_then_include \<lparr>silent = False\<rparr> host
       (AtRule None ''mixin'' ''m $a, $b: b, $c: c'' (Some [Decl None ''v'' ''$a $b $c'']))
       (AtRule None ''include'' ''m 1, , 3'' None) =
     Inr [Decl None ''v'' ''1 b 3'']"
  by code_simp

text \<open>
  C9, as the code has it.  Actuals beyond the formal parameters that do not begin with the
  marker word of single arguments have no effect: the expansion, error or not, is the one
  of the invocation without them, and so are the bound values.
\<close>

theorem surplus_actuals_ignored:
  "(lookup_mixin ms name = Own m
      \<and> (\<forall>param \<in> set (drop (length (args m)) params). \<not> startsWith param ''single-arg'') \<longrightarrow>
      expandMixin os h ms rule name params =
        expandMixin os h ms rule name (take (length (args m)) params))
   \<and> bindValues formals params = bindValues formals (take (length formals) params)"
proof -
  have "expandMixin os h ms rule name params =
        expandMixin os h ms rule name (take (length (args m)) params)"
    if "lookup_mixin ms name = Own m"
      and "\<forall>param \<in> set (drop (length (args m)) params). \<not> startsWith param ''single-arg''"
    using that
    by (simp add: expandMixin_def singleArgumentsMap_take bindValues_take
        split: sum.splits mixin_value.splits option.splits)
  then show ?thesis by (simp add: bindValues_take)
qed

theorem surplus_actuals_ignored_witness:
  "expandMixin \<lparr>silent = False\<rparr> host
     [''m'' \<mapsto> \<lparr>args = [(''a'', [])], content = False,
        mixin = CssMixin (AtRule None ''mixin'' ''m $a'' (Some [Decl None ''v'' ''$a''])),
        file_path = None\<rparr>]
     (AtRule None ''include'' ''m 1, 2'' None) ''m'' [''1'', ''2''] =
   Inr [Decl None ''v'' ''1'']"
proof -
  let ?m = "\<lparr>args = [(''a'', [])], content = False,
        mixin = CssMixin (AtRule None ''mixin'' ''m $a'' (Some [Decl None ''v'' ''$a''])),
        file_path = None\<rparr>"
  have l: "lookup_mixin [''m'' \<mapsto> ?m] ''m'' = Own ?m"
    by (simp add: lookup_mixin_def)
  have d: "\<forall>param \<in> set (drop (length (args ?m)) [''1'', ''2'']).
      \<not> startsWith param ''single-arg''"
    by (simp add: startsWith_def)
  have "expandMixin \<lparr>silent = False\<rparr> host [''m'' \<mapsto> ?m]
      (AtRule None ''include'' ''m 1, 2'' None) ''m'' (take (length (args ?m)) [''1'', ''2'']) =
      Inr [Decl None ''v'' ''1'']"
    by (simp add: expandMixin_def singleArgumentsMap_def new_Map_def startsWith_def
        lookup_mixin_def bindValues_def bound_def host_def unwrapSingleArguments_def
        flush_var_def is_var_char_def)
  with surplus_actuals_ignored [of "[''m'' \<mapsto> ?m]" "''m''" ?m "[''1'', ''2'']"] l d
  show ?thesis by simp
qed

text \<open>
  C9, as the claim has it, fails on a surplus actual that begins with the marker word: it
  is resolved like every other actual, and raises the error of a malformed single
  argument.
\<close>

theorem surplus_single_arg_raises:
  "length (invocationParams host ''1, single-arg 2'') = 2
   \<and> define_then_include \<lparr>silent = False\<rparr> host
       (AtRule None ''mixin'' ''m $a'' (Some [Decl None ''v'' ''$a'']))
       (AtRule (Some (1, 1)) ''include'' ''m 1, single-arg 2'' None) =
     Inl (CssSyntaxError (Some (1, 1))
           ''Content of single-arg must be wrapped in brackets: single-arg 2'')"
  by code_simp

section \<open>Unknown invocations and errors\<close>

text \<open>
  C2, as the code has it.  An invocation whose name is no key of the registry, nor a
  property that every object inherits, and whose single arguments all resolve: without
  \<open>silent\<close> it fails with the error of the invocation node that names it; with
  \<open>silent\<close> nothing stands where it stood, and there is no error.
\<close>

theorem undefined_mixin:
  assumes "parseMixin h rule = Inr (name, paramString)"
    and "ms name = None" and "name \<notin> set Object_prototype"
    and "singleArgumentsMap rule (invocationParams h paramString) = Inr m"
  shows "insertMixin os h ms rule =
     (if silent os then Inr []
      else Inl (CssSyntaxError (node_source rule) (''Undefined mixin '' @ name)))"
  using assms
  by (simp add: insertMixin_def expandMixin_def lookup_mixin_def node_error_def)

theorem undefined_mixin_witness:
  "insertMixin \<lparr>silent = True\<rparr> host Map.empty (AtRule (Some (1, 1)) ''include'' ''A'' None) =
     Inr []
   \<and> insertMixin \<lparr>silent = False\<rparr> host Map.empty (AtRule (Some (1, 1)) ''include'' ''A'' None) =
     Inl (CssSyntaxError (Some (1, 1)) ''Undefined mixin A'')"
proof -
  let ?rule = "AtRule (Some (1, 1)) ''include'' ''A'' None"
  have p: "parseMixin host ?rule = Inr (''A'', [])"
    by (simp add: match_def MIXIN_PATTERN_def is_name_char_def)
  have n: "Map.empty ''A'' = (None :: meta option)" by simp
  have o: "''A'' \<notin> set Object_prototype" by (simp add: Object_prototype_def)
  have s: "singleArgumentsMap ?rule (invocationParams host []) = Inr []"
    by (simp add: singleArgumentsMap_def invocationParams_def trim_def new_Map_def)
  from undefined_mixin [OF p n o s, of "\<lparr>silent = True\<rparr>"]
    undefined_mixin [OF p n o s, of "\<lparr>silent = False\<rparr>"]
  show ?thesis by simp
qed

text \<open>
  C2, as the claim has it, fails when an actual is a malformed single argument: the
  single arguments are resolved before the registry is asked, so the invocation of an
  unknown name fails with that error, with \<open>silent\<close> and without.
\<close>

theorem unknown_with_malformed_single_arg:
  "insertMixin \<lparr>silent = True\<rparr> host Map.empty
     (AtRule (Some (1, 1)) ''include'' ''A single-arg 1'' None) =
     Inl (CssSyntaxError (Some (1, 1))
           ''Content of single-arg must be wrapped in brackets: single-arg 1'')
   \<and> insertMixin \<lparr>silent = False\<rparr> host Map.empty
     (AtRule (Some (1, 1)) ''include'' ''A single-arg 1'' None) =
     Inl (CssSyntaxError (Some (1, 1))
           ''Content of single-arg must be wrapped in brackets: single-arg 1'')"
  by code_simp







section \<open>Nested invocations\<close>











end
